theory Spec2Isabelle
  imports Main
begin

section \<open>Strings\<close>

text \<open>
  A Python string is modelled as a \<open>string\<close> whose characters are code points below
  256; code points above are outside the model. On these characters \<open>is_space\<close> is
  \<open>str.isspace\<close>, which fixes what \<open>str.strip\<close> removes (the no-break space and the
  next-line control too), and \<open>lower_char\<close> is \<open>str.lower\<close>: the letters A to Z and
  the capital letters from U+00C0 to U+00DE, the multiplication sign U+00D7 excepted,
  move up by 32.
\<close>

definition is_space :: "char \<Rightarrow> bool" where
  "is_space c = (c \<in> set [CHR '' '', CHR 0x09, CHR 0x0A, CHR 0x0B, CHR 0x0C, CHR 0x0D,
                           CHR 0x1C, CHR 0x1D, CHR 0x1E, CHR 0x1F, CHR 0x85, CHR 0xA0])"

definition strip :: "string \<Rightarrow> string" where
  "strip s = rev (dropWhile is_space (rev (dropWhile is_space s)))"

definition lower_char :: "char \<Rightarrow> char" where
  "lower_char c =
     (case map_of
        (zip (''ABCDEFGHIJKLMNOPQRSTUVWXYZ'' @
              [CHR 0xC0, CHR 0xC1, CHR 0xC2, CHR 0xC3, CHR 0xC4, CHR 0xC5, CHR 0xC6, CHR 0xC7,
               CHR 0xC8, CHR 0xC9, CHR 0xCA, CHR 0xCB, CHR 0xCC, CHR 0xCD, CHR 0xCE, CHR 0xCF,
               CHR 0xD0, CHR 0xD1, CHR 0xD2, CHR 0xD3, CHR 0xD4, CHR 0xD5, CHR 0xD6,
               CHR 0xD8, CHR 0xD9, CHR 0xDA, CHR 0xDB, CHR 0xDC, CHR 0xDD, CHR 0xDE])
             (''abcdefghijklmnopqrstuvwxyz'' @
              [CHR 0xE0, CHR 0xE1, CHR 0xE2, CHR 0xE3, CHR 0xE4, CHR 0xE5, CHR 0xE6, CHR 0xE7,
               CHR 0xE8, CHR 0xE9, CHR 0xEA, CHR 0xEB, CHR 0xEC, CHR 0xED, CHR 0xEE, CHR 0xEF,
               CHR 0xF0, CHR 0xF1, CHR 0xF2, CHR 0xF3, CHR 0xF4, CHR 0xF5, CHR 0xF6,
               CHR 0xF8, CHR 0xF9, CHR 0xFA, CHR 0xFB, CHR 0xFC, CHR 0xFD, CHR 0xFE])) c of
        Some l \<Rightarrow> l
      | None \<Rightarrow> c)"

definition lower :: "string \<Rightarrow> string" where
  "lower s = map lower_char s"

definition startswith :: "string \<Rightarrow> string \<Rightarrow> bool" where
  "startswith s p = (take (length p) s = p)"

text \<open>\<open>str_in k s\<close> is Python's \<open>k in s\<close> on strings.\<close>

fun str_in :: "string \<Rightarrow> string \<Rightarrow> bool" where
  "str_in k [] = (k = [])"
| "str_in k (c # cs) = (startswith (c # cs) k \<or> str_in k cs)"

text \<open>\<open>str_int\<close> is Python's \<open>str\<close> on an integer, as the f-strings of the query URLs use it.\<close>

fun str_nat :: "nat \<Rightarrow> string" where
  "str_nat n =
     (if n < 10 then [''0123456789'' ! n]
      else str_nat (n div 10) @ [''0123456789'' ! (n mod 10)])"

definition str_int :: "int \<Rightarrow> string" where
  "str_int i = (if i < 0 then CHR ''-'' # str_nat (nat (- i)) else str_nat (nat i))"

section \<open>Exceptions\<close>

text \<open>
  The handlers of the tools distinguish Selenium's \<open>TimeoutException\<close>, its superclass
  \<open>WebDriverException\<close> and every other \<open>Exception\<close>. \<open>NoSuchElementException\<close>, another
  subclass of \<open>WebDriverException\<close>, is the one class that \<open>WebDriverWait.until\<close> ignores.
  \<open>message e\<close> is \<open>str(e)\<close>.
\<close>

datatype exn_class = TimeoutException | NoSuchElementException | WebDriverException | OtherException

datatype exn = Exn (cls: exn_class) (message: string)

section \<open>The browser session\<close>

text \<open>
  The browser manager and the Selenium driver it hands out are an external object with a
  state of its own, of type \<open>'d\<close>. Each operation either raises or returns, moves the
  state on and takes some time (in milliseconds). The world of a tool call holds that
  state, the clock that \<open>time.time()\<close> reads, and the list of the calls made so far, in
  order.
\<close>

record 'd driver =
  get_driver :: "'d \<Rightarrow> (exn + unit) \<times> 'd \<times> nat"
  get :: "string \<Rightarrow> 'd \<Rightarrow> (exn + unit) \<times> 'd \<times> nat"
  execute_script :: "string \<Rightarrow> 'd \<Rightarrow> (exn + string) \<times> 'd \<times> nat"
  current_url :: "'d \<Rightarrow> (exn + string) \<times> 'd \<times> nat"
  title :: "'d \<Rightarrow> (exn + string) \<times> 'd \<times> nat"
  page_source :: "'d \<Rightarrow> (exn + string) \<times> 'd \<times> nat"
  find_elements :: "string \<Rightarrow> string \<Rightarrow> 'd \<Rightarrow> (exn + nat) \<times> 'd \<times> nat"

datatype call =
    GetDriver
  | Get string
  | ExecuteScript string
  | CurrentUrl
  | Title
  | PageSource
  | FindElements string string
  | Sleep nat

record 'd world =
  driver_state :: 'd
  now :: nat
  calls :: "call list"

definition call_driver ::
  "call \<Rightarrow> ('d \<Rightarrow> (exn + 'a) \<times> 'd \<times> nat) \<Rightarrow> 'd world \<Rightarrow> (exn + 'a) \<times> 'd world" where
  "call_driver c f w =
     (case f (driver_state w) of
        (r, d, t) \<Rightarrow> (r, w\<lparr>driver_state := d, now := now w + t, calls := calls w @ [c]\<rparr>))"

text \<open>\<open>asyncio.sleep\<close> and \<open>time.sleep\<close>, in milliseconds.\<close>

definition sleep :: "nat \<Rightarrow> 'd world \<Rightarrow> 'd world" where
  "sleep ms w = w\<lparr>now := now w + ms, calls := calls w @ [Sleep ms]\<rparr>"

section \<open>Collaborators outside the tools\<close>

text \<open>
  \<open>server.utils.net\<close> and \<open>server.utils.parsing\<close> are imported by the tools, and
  \<open>quote_plus\<close> and \<open>urljoin\<close> come from \<open>urllib.parse\<close>. They are parameters of the
  model. A parsed page is a tree of tags, each with its attributes, its text, and the table
  of the elements that each CSS selector matches below it, in document order.
\<close>

datatype tag =
  Tag (attrs: "(string \<times> string) list") (contents: string) (matches: "(string \<times> tag list) list")

record helpers =
  validate_url_security :: "string \<Rightarrow> bool \<Rightarrow> exn + bool \<times> string"
  normalize_url :: "string \<Rightarrow> exn + string"
  clean_text_content :: "string \<Rightarrow> exn + string"
  truncate_text :: "string \<Rightarrow> nat \<Rightarrow> exn + string"
  parse_html_with_soup :: "string \<Rightarrow> exn + tag"
  extract_element_text :: "tag \<Rightarrow> exn + string"
  quote_plus :: "string \<Rightarrow> string"
  urljoin :: "string \<Rightarrow> string \<Rightarrow> string"

section \<open>fetch.py\<close>

datatype meta = MBool bool | MNat nat | MInt int | MTime nat

record FetchUrlOutput =
  final_url :: string
  title :: string
  html :: string
  status :: string
  error :: "string option"
  metadata :: "string \<rightharpoonup> meta"

definition fetch_error :: "string \<Rightarrow> string \<Rightarrow> FetchUrlOutput" where
  "fetch_error url msg =
     \<lparr>final_url = url, title = [], html = [], status = ''error'', error = Some msg,
      metadata = Map.empty\<rparr>"

subsection \<open>\<open>_wait_for_page_load\<close>\<close>

text \<open>
  The loop polls \<open>document.readyState\<close> until it is \<open>complete\<close> or the clock reaches
  \<open>end_time\<close>. It returns \<open>None\<close> on both ways out, so the model returns the world only.
\<close>

function wait_for_page_load_loop :: "'d driver \<Rightarrow> nat \<Rightarrow> 'd world \<Rightarrow> 'd world" where
  "wait_for_page_load_loop drv end_time w =
     (if now w < end_time then
        (case call_driver (ExecuteScript ''return document.readyState'')
                (execute_script drv ''return document.readyState'') w of
           (Inr ready_state, w1) \<Rightarrow>
             if ready_state = ''complete'' then sleep 500 w1
             else wait_for_page_load_loop drv end_time (sleep 100 w1)
         | (Inl e, w1) \<Rightarrow> wait_for_page_load_loop drv end_time (sleep 100 w1))
      else w)"
  by pat_completeness auto
termination
  by (relation "measure (\<lambda>(drv, end_time, w). end_time - now w)")
     (auto simp: call_driver_def sleep_def split: prod.splits)

declare wait_for_page_load_loop.simps [simp del]

definition wait_for_page_load :: "'d driver \<Rightarrow> nat \<Rightarrow> 'd world \<Rightarrow> 'd world" where
  "wait_for_page_load drv max_wait w =
     wait_for_page_load_loop drv (now w + 1000 * max_wait) w"

subsection \<open>\<open>_fetch_page_with_retry\<close>\<close>

definition is_recoverable :: "string \<Rightarrow> bool" where
  "is_recoverable error_msg =
     list_ex (\<lambda>keyword. str_in keyword error_msg) [''net::'', ''dns'', ''connection'', ''timeout'']"

text \<open>The \<open>try\<close> block of the function.\<close>

definition fetch_page_body ::
  "helpers \<Rightarrow> 'd driver \<Rightarrow> string \<Rightarrow> 'd world \<Rightarrow> (exn + FetchUrlOutput) \<times> 'd world" where
  "fetch_page_body h drv url w =
     (case call_driver GetDriver (get_driver drv) w of
        (Inl e, w1) \<Rightarrow> (Inl e, w1)
      | (Inr u1, w1) \<Rightarrow>
     (case call_driver (Get url) (get drv url) w1 of
        (Inl e, w2) \<Rightarrow> (Inl e, w2)
      | (Inr u2, w2) \<Rightarrow>
     (case call_driver CurrentUrl (current_url drv) (wait_for_page_load drv 30 w2) of
        (Inl e, w4) \<Rightarrow> (Inl e, w4)
      | (Inr final_url', w4) \<Rightarrow>
     (case call_driver Title (driver.title drv) w4 of
        (r_title, w5) \<Rightarrow>
     (case call_driver PageSource (page_source drv) w5 of
        (r_html, w6) \<Rightarrow>
     (let title' = (case r_title of
                      Inl e \<Rightarrow> []
                    | Inr t \<Rightarrow> (case clean_text_content h t of Inl e \<Rightarrow> t | Inr t' \<Rightarrow> t'));
          html' = (case r_html of Inl e \<Rightarrow> [] | Inr s \<Rightarrow> s)
      in (Inr \<lparr>final_url = final_url', title = title', html = html', status = ''ok'',
               error = None,
               metadata = [''redirected'' \<mapsto> MBool (final_url' \<noteq> url),
                           ''title_length'' \<mapsto> MNat (length title'),
                           ''html_length'' \<mapsto> MNat (length html')]\<rparr>, w6)))))))"

text \<open>The function with its two \<open>except\<close> clauses: one attempt of the retried call.\<close>

definition fetch_page_attempt ::
  "helpers \<Rightarrow> 'd driver \<Rightarrow> string \<Rightarrow> 'd world \<Rightarrow> (exn + FetchUrlOutput) \<times> 'd world" where
  "fetch_page_attempt h drv url w =
     (case fetch_page_body h drv url w of
        (Inr out, w') \<Rightarrow> (Inr out, w')
      | (Inl e, w') \<Rightarrow>
          (case cls e of
             TimeoutException \<Rightarrow>
               (Inr (fetch_error url (''Page load timeout: '' @ message e)), w')
           | OtherException \<Rightarrow> (Inl e, w')
           | c \<Rightarrow>
               if is_recoverable (lower (message e)) then (Inl e, w')
               else (Inr (fetch_error url (''Browser error: '' @ message e)), w')))"

text \<open>
  The decorator \<open>@retry(stop=stop_after_attempt(3), wait=wait_exponential(multiplier=1,
  min=1, max=10), reraise=True)\<close> of the tenacity library: run the call; when it raises
  and the attempt number has not reached the stop, sleep for the wait of that attempt and
  run it again; after the last attempt the exception is raised again.
\<close>

definition wait_exponential :: "nat \<Rightarrow> nat \<Rightarrow> nat \<Rightarrow> nat \<Rightarrow> nat" where
  "wait_exponential multiplier mn mx attempt_number =
     max mn (min (multiplier * 2 ^ (attempt_number - 1)) mx)"

function retry ::
  "nat \<Rightarrow> (nat \<Rightarrow> nat) \<Rightarrow> ('d world \<Rightarrow> (exn + 'a) \<times> 'd world) \<Rightarrow> nat \<Rightarrow> 'd world
     \<Rightarrow> (exn + 'a) \<times> 'd world" where
  "retry stop_after_attempt wait fn attempt_number w =
     (case fn w of
        (Inr r, w') \<Rightarrow> (Inr r, w')
      | (Inl e, w') \<Rightarrow>
          if attempt_number \<ge> stop_after_attempt then (Inl e, w')
          else retry stop_after_attempt wait fn (Suc attempt_number)
                 (sleep (1000 * wait attempt_number) w'))"
  by pat_completeness auto
termination
  by (relation "measure (\<lambda>(stop_after_attempt, wait, fn, attempt_number, w).
                  stop_after_attempt - attempt_number)") auto

declare retry.simps [simp del]

definition fetch_page_with_retry ::
  "helpers \<Rightarrow> 'd driver \<Rightarrow> string \<Rightarrow> 'd world \<Rightarrow> (exn + FetchUrlOutput) \<times> 'd world" where
  "fetch_page_with_retry h drv url w =
     retry 3 (wait_exponential 1 1 10) (fetch_page_attempt h drv url) 1 w"

subsection \<open>\<open>fetch_url\<close>\<close>

text \<open>
  \<open>get_browser_manager\<close> is the outcome of \<open>await get_browser_manager()\<close>: it raises, or
  returns a manager that is falsy (\<open>False\<close>) or usable (\<open>True\<close>). The tool
  \<open>fetch_url_tool\<close> always passes the callable.
\<close>

definition fetch_url_try ::
  "helpers \<Rightarrow> 'd driver \<Rightarrow> exn + bool \<Rightarrow> string \<Rightarrow> nat \<Rightarrow> 'd world
     \<Rightarrow> (exn + FetchUrlOutput) \<times> 'd world" where
  "fetch_url_try h drv get_browser_manager url start_time w =
     (case validate_url_security h url False of
        Inl e \<Rightarrow> (Inl e, w)
      | Inr (is_valid, error_msg) \<Rightarrow>
          if \<not> is_valid then
            (Inr (fetch_error url (''URL validation failed: '' @ error_msg)), w)
          else
     (case normalize_url h url of
        Inl e \<Rightarrow> (Inl e, w)
      | Inr normalized_url \<Rightarrow>
     (case get_browser_manager of
        Inl e \<Rightarrow> (Inl e, w)
      | Inr browser_manager \<Rightarrow>
          if \<not> browser_manager then
            (Inr (fetch_error url ''Browser manager not available''), w)
          else
     (case fetch_page_with_retry h drv normalized_url w of
        (Inl e, w') \<Rightarrow> (Inl e, w')
      | (Inr result, w') \<Rightarrow>
          (Inr (result\<lparr>metadata := (metadata result)
                  (''duration_seconds'' \<mapsto> MTime (now w' - start_time),
                   ''timestamp'' \<mapsto> MTime (now w'))\<rparr>), w')))))"

definition fetch_url ::
  "helpers \<Rightarrow> 'd driver \<Rightarrow> exn + bool \<Rightarrow> string \<Rightarrow> 'd world
     \<Rightarrow> (exn + FetchUrlOutput) \<times> 'd world" where
  "fetch_url h drv get_browser_manager url0 w =
     (let url = strip url0; start_time = now w in
      case fetch_url_try h drv get_browser_manager url start_time w of
        (Inr out, w') \<Rightarrow> (Inr out, w')
      | (Inl e, w') \<Rightarrow>
          (Inr ((fetch_error url (''Unexpected error: '' @ message e))
                  \<lparr>metadata := [''duration_seconds'' \<mapsto> MTime (now w' - start_time)]\<rparr>), w'))"

section \<open>search.py\<close>

record WebSearchInput =
  query :: string
  engine :: string
  num_results :: int

record SearchResult =
  title :: string
  url :: string
  snippet :: string

record WebSearchOutput =
  results :: "SearchResult list"
  query :: string
  engine :: string
  status :: string
  error :: "string option"
  metadata :: "string \<rightharpoonup> meta"

definition search_error :: "string \<Rightarrow> string \<Rightarrow> string \<Rightarrow> WebSearchOutput" where
  "search_error q eng msg =
     \<lparr>results = [], query = q, engine = eng, status = ''error'', error = Some msg,
      metadata = Map.empty\<rparr>"

subsection \<open>The six engines\<close>

text \<open>
  The source has one \<open>_search_\<close>, one \<open>_parse_\<close> and one \<open>_extract_\<close> function for each
  engine. The six copies differ in the constants below only, so each family is modelled
  by one function that takes the engine.
\<close>

datatype search_engine = GoogleScholar | PubMed | IEEE | ArXiv | MedRxiv | BioRxiv

fun search_url :: "helpers \<Rightarrow> search_engine \<Rightarrow> string \<Rightarrow> int \<Rightarrow> string" where
  "search_url h GoogleScholar q n =
     ''https://scholar.google.com/scholar?q='' @ quote_plus h q @ ''&hl=en&as_sdt=0,5''"
| "search_url h PubMed q n =
     ''https://pubmed.ncbi.nlm.nih.gov/?term='' @ quote_plus h q @ ''&size='' @ str_int (min n 20)"
| "search_url h IEEE q n =
     ''https://ieeexplore.ieee.org/search/searchresult.jsp?queryText='' @ quote_plus h q"
| "search_url h ArXiv q n =
     ''https://arxiv.org/search/?query='' @ quote_plus h q
       @ ''&searchtype=all&abstracts=show&order=-announced_date_first&size=''
       @ str_int (min n 25)"
| "search_url h MedRxiv q n = ''https://www.medrxiv.org/search/'' @ quote_plus h q"
| "search_url h BioRxiv q n = ''https://www.biorxiv.org/search/'' @ quote_plus h q"

fun max_wait :: "search_engine \<Rightarrow> nat" where
  "max_wait IEEE = 20"
| "max_wait e = 15"

fun result_selectors :: "search_engine \<Rightarrow> string list" where
  "result_selectors GoogleScholar = [''.gs_r.gs_or.gs_scl'', ''.gs_ri'', ''[data-lid]'']"
| "result_selectors PubMed = [''article.full-docsum'', ''.docsum-wrap'', ''.docsum-content'']"
| "result_selectors IEEE = [''.List-results-items'', ''.result-item'', ''.document'']"
| "result_selectors ArXiv = [''li.arxiv-result'', ''.list-item'', ''ol li'']"
| "result_selectors MedRxiv = [''.highwire-cite'', ''.search-result'', ''.result-item'']"
| "result_selectors BioRxiv = [''.highwire-cite'', ''.search-result'', ''.result-item'']"

fun title_selectors :: "search_engine \<Rightarrow> string list" where
  "title_selectors GoogleScholar = [''h3.gs_rt a'', ''.gs_rt a'', ''h3 a'', ''.gs_rt'']"
| "title_selectors PubMed = [''.docsum-title a'', ''h1 a'', ''.title a'']"
| "title_selectors IEEE = [''.result-item-title a'', ''h2 a'', ''.title a'']"
| "title_selectors ArXiv = [''.list-title a'', ''p.title a'', ''.title a'']"
| "title_selectors MedRxiv = [''.highwire-cite-title a'', ''.citation-title a'', ''.title a'']"
| "title_selectors BioRxiv = [''.highwire-cite-title a'', ''.citation-title a'', ''.title a'']"

text \<open>Google Scholar looks for the link under \<open>title_selectors[:2]\<close>, the others under all.\<close>

fun url_selectors :: "search_engine \<Rightarrow> string list" where
  "url_selectors GoogleScholar = take 2 (title_selectors GoogleScholar)"
| "url_selectors e = title_selectors e"

fun snippet_selectors :: "search_engine \<Rightarrow> string list" where
  "snippet_selectors GoogleScholar = [''.gs_rs'', ''.gs_a + div'', ''.gs_fl + div'']"
| "snippet_selectors PubMed = [''.full-view-snippet'', ''.docsum-snippet'', ''.abstract'']"
| "snippet_selectors IEEE = [''.description'', ''.abstract'', ''.snippet'']"
| "snippet_selectors ArXiv = [''.list-abstract'', ''p.abstract'', ''.abstract'']"
| "snippet_selectors MedRxiv = [''.highwire-cite-snippet'', ''.citation-snippet'', ''.abstract'']"
| "snippet_selectors BioRxiv = [''.highwire-cite-snippet'', ''.citation-snippet'', ''.abstract'']"

fun base_url :: "search_engine \<Rightarrow> string" where
  "base_url GoogleScholar = ''https://scholar.google.com''"
| "base_url PubMed = ''https://pubmed.ncbi.nlm.nih.gov''"
| "base_url IEEE = ''https://ieeexplore.ieee.org''"
| "base_url ArXiv = ''https://arxiv.org''"
| "base_url MedRxiv = ''https://www.medrxiv.org''"
| "base_url BioRxiv = ''https://www.biorxiv.org''"

subsection \<open>\<open>_extract_*_result\<close>\<close>

definition select :: "tag \<Rightarrow> string \<Rightarrow> tag list" where
  "select t selector = (case map_of (matches t) selector of None \<Rightarrow> [] | Some ts \<Rightarrow> ts)"

definition select_one :: "tag \<Rightarrow> string \<Rightarrow> tag option" where
  "select_one t selector = (case select t selector of [] \<Rightarrow> None | x # xs \<Rightarrow> Some x)"

text \<open>The loop over the title (or snippet) selectors stops at the first one that matches.\<close>

fun first_match :: "tag \<Rightarrow> string list \<Rightarrow> tag option" where
  "first_match element [] = None"
| "first_match element (selector # rest) =
     (case select_one element selector of
        Some found \<Rightarrow> Some found
      | None \<Rightarrow> first_match element rest)"

text \<open>The loop over the link selectors stops at the first match with a non-empty \<open>href\<close>.\<close>

fun first_href :: "tag \<Rightarrow> string list \<Rightarrow> string" where
  "first_href element [] = []"
| "first_href element (selector # rest) =
     (case select_one element selector of
        None \<Rightarrow> first_href element rest
      | Some url_element \<Rightarrow>
          (case map_of (attrs url_element) ''href'' of
             None \<Rightarrow> first_href element rest
           | Some href \<Rightarrow> if href = [] then first_href element rest else href))"

text \<open>
  The whole body is inside \<open>try ... except Exception: return None\<close>, so a helper that
  raises makes the result \<open>None\<close>.
\<close>

definition extract_result :: "helpers \<Rightarrow> search_engine \<Rightarrow> tag \<Rightarrow> SearchResult option" where
  "extract_result h eng element =
     (case first_match element (title_selectors eng) of
        None \<Rightarrow> None
      | Some title_element \<Rightarrow>
     (case extract_element_text h title_element of
        Inl e \<Rightarrow> None
      | Inr title0 \<Rightarrow>
          if title0 = [] then None
          else
     (let url0 = first_href element (url_selectors eng) in
      if url0 = [] then None
      else
     (let url1 = (if startswith url0 ''/'' then urljoin h (base_url eng) url0 else url0) in
      case (case first_match element (snippet_selectors eng) of
              None \<Rightarrow> Inr []
            | Some snippet_element \<Rightarrow> extract_element_text h snippet_element) of
        Inl e \<Rightarrow> None
      | Inr snippet0 \<Rightarrow>
     (case clean_text_content h title0 of
        Inl e \<Rightarrow> None
      | Inr title1 \<Rightarrow>
     (case clean_text_content h snippet0 of
        Inl e \<Rightarrow> None
      | Inr snippet1 \<Rightarrow>
     (case truncate_text h snippet1 300 of
        Inl e \<Rightarrow> None
      | Inr snippet2 \<Rightarrow>
          Some \<lparr>title = title1, url = url1, snippet = snippet2\<rparr>)))))))"

subsection \<open>\<open>_parse_*_results\<close>\<close>

text \<open>The first container selector that matches anything fixes the result elements.\<close>

fun select_first :: "tag \<Rightarrow> string list \<Rightarrow> tag list" where
  "select_first soup [] = []"
| "select_first soup (selector # rest) =
     (case select soup selector of
        [] \<Rightarrow> select_first soup rest
      | x # xs \<Rightarrow> x # xs)"

text \<open>\<open>xs[:n]\<close>, for a negative \<open>n\<close> too.\<close>

definition slice_to :: "'a list \<Rightarrow> int \<Rightarrow> 'a list" where
  "slice_to xs n = (if 0 \<le> n then take (nat n) xs else take (length xs - nat (- n)) xs)"

text \<open>
  The loop over the result elements: an element whose extraction raises or returns
  \<open>None\<close> adds nothing, and the loop goes on with the next one.
\<close>

fun extract_each :: "('e \<Rightarrow> exn + 'r option) \<Rightarrow> 'e list \<Rightarrow> 'r list" where
  "extract_each extract [] = []"
| "extract_each extract (element # rest) =
     (case extract element of
        Inr (Some result) \<Rightarrow> result # extract_each extract rest
      | Inr None \<Rightarrow> extract_each extract rest
      | Inl e \<Rightarrow> extract_each extract rest)"

definition result_elements :: "search_engine \<Rightarrow> tag \<Rightarrow> tag list" where
  "result_elements eng soup = select_first soup (result_selectors eng)"

definition parse_results :: "helpers \<Rightarrow> search_engine \<Rightarrow> string \<Rightarrow> int \<Rightarrow> SearchResult list" where
  "parse_results h eng html' max_results =
     (case parse_html_with_soup h html' of
        Inl e \<Rightarrow> []
      | Inr soup \<Rightarrow>
          if result_elements eng soup = [] then []
          else extract_each (\<lambda>element. Inr (extract_result h eng element))
                 (slice_to (result_elements eng soup) max_results))"

subsection \<open>\<open>_wait_for_search_results\<close>\<close>

text \<open>
  Selenium's \<open>WebDriverWait(driver, max_wait).until(condition)\<close>: evaluate the condition;
  return when it holds; an exception of the condition other than
  \<open>NoSuchElementException\<close> is raised on; when the clock is past the end, raise
  \<open>TimeoutException\<close>; otherwise sleep half a second and evaluate again.
\<close>

function until_ready :: "'d driver \<Rightarrow> nat \<Rightarrow> 'd world \<Rightarrow> (exn + unit) \<times> 'd world" where
  "until_ready drv end_time w =
     (case call_driver (ExecuteScript ''return document.readyState'')
             (execute_script drv ''return document.readyState'') w of
        (Inr ready_state, w1) \<Rightarrow>
          if ready_state = ''complete'' then (Inr (), w1)
          else if end_time < now w1 then (Inl (Exn TimeoutException []), w1)
          else until_ready drv end_time (sleep 500 w1)
      | (Inl e, w1) \<Rightarrow>
          if cls e \<noteq> NoSuchElementException then (Inl e, w1)
          else if end_time < now w1 then (Inl (Exn TimeoutException []), w1)
          else until_ready drv end_time (sleep 500 w1))"
  by pat_completeness auto
termination
  by (relation "measure (\<lambda>(drv, end_time, w). Suc end_time - now w)")
     (auto simp: call_driver_def sleep_def split: prod.splits)

declare until_ready.simps [simp del]

fun probe_result_indicators :: "'d driver \<Rightarrow> string list \<Rightarrow> 'd world \<Rightarrow> 'd world" where
  "probe_result_indicators drv [] w = w"
| "probe_result_indicators drv (selector # rest) w =
     (case call_driver (FindElements ''css selector'' selector)
             (find_elements drv ''css selector'' selector) w of
        (Inr n, w1) \<Rightarrow> if 0 < n then w1 else probe_result_indicators drv rest w1
      | (Inl e, w1) \<Rightarrow> probe_result_indicators drv rest w1)"

text \<open>Both \<open>except\<close> clauses only log, so the function returns \<open>None\<close> on every path.\<close>

definition wait_for_search_results :: "'d driver \<Rightarrow> nat \<Rightarrow> 'd world \<Rightarrow> 'd world" where
  \<open>wait_for_search_results drv max_wait' w =
     (case until_ready drv (now w + 1000 * max_wait') w of
        (Inl e, w1) \<Rightarrow> w1
      | (Inr u, w1) \<Rightarrow>
          sleep 1000
            (probe_result_indicators drv
               [''article[data-testid="result"]'', ''.result'', ''[data-testid="result"]''] w1))\<close>

subsection \<open>\<open>_search_*\<close>\<close>

text \<open>\<open>results\<close> starts empty and the \<open>except Exception\<close> clause only logs.\<close>

definition search ::
  "helpers \<Rightarrow> 'd driver \<Rightarrow> search_engine \<Rightarrow> string \<Rightarrow> int \<Rightarrow> 'd world
     \<Rightarrow> SearchResult list \<times> 'd world" where
  "search h drv eng q n w =
     (case call_driver GetDriver (get_driver drv) w of
        (Inl e, w1) \<Rightarrow> ([], w1)
      | (Inr u1, w1) \<Rightarrow>
     (case call_driver (Get (search_url h eng q n)) (get drv (search_url h eng q n)) w1 of
        (Inl e, w2) \<Rightarrow> ([], w2)
      | (Inr u2, w2) \<Rightarrow>
     (case call_driver PageSource (page_source drv)
             (wait_for_search_results drv (max_wait eng) w2) of
        (Inl e, w4) \<Rightarrow> ([], w4)
      | (Inr html', w4) \<Rightarrow> (parse_results h eng html' n, w4))))"

subsection \<open>\<open>web_search\<close>\<close>

definition known_engines :: "string list" where
  "known_engines = [''google_scholar'', ''pubmed'', ''ieee'', ''arxiv'', ''medrxiv'', ''biorxiv'']"

text \<open>The \<open>if\<close>/\<open>elif\<close> chain; \<open>None\<close> is its \<open>else\<close> branch.\<close>

definition dispatch :: "string \<Rightarrow> search_engine option" where
  "dispatch eng =
     (if eng = ''google_scholar'' then Some GoogleScholar
      else if eng = ''pubmed'' then Some PubMed
      else if eng = ''ieee'' then Some IEEE
      else if eng = ''arxiv'' then Some ArXiv
      else if eng = ''medrxiv'' then Some MedRxiv
      else if eng = ''biorxiv'' then Some BioRxiv
      else None)"

text \<open>
  \<open>get_browser_manager\<close> is the outcome of the call \<open>get_browser_manager()\<close>, which in
  \<open>app.py\<close> reads a global and touches neither the session nor the driver.
\<close>

definition web_search_try ::
  "helpers \<Rightarrow> 'd driver \<Rightarrow> exn + bool \<Rightarrow> string \<Rightarrow> string \<Rightarrow> int \<Rightarrow> nat \<Rightarrow> 'd world
     \<Rightarrow> (exn + WebSearchOutput) \<times> 'd world" where
  "web_search_try h drv get_browser_manager q eng n start_time w =
     (case get_browser_manager of
        Inl e \<Rightarrow> (Inl e, w)
      | Inr browser_manager \<Rightarrow>
          if \<not> browser_manager then
            (Inr (search_error q eng ''Browser manager not available''), w)
          else
     (case dispatch eng of
        None \<Rightarrow> (Inr (search_error q eng (''Unsupported search engine: '' @ eng)), w)
      | Some e \<Rightarrow>
     (case search h drv e q n w of
        (rs, w') \<Rightarrow>
          (Inr \<lparr>results = rs, query = q, engine = eng, status = ''ok'', error = None,
                metadata = [''duration_seconds'' \<mapsto> MTime (now w' - start_time),
                            ''results_requested'' \<mapsto> MInt n,
                            ''results_found'' \<mapsto> MNat (length rs),
                            ''timestamp'' \<mapsto> MTime (now w')]\<rparr>, w'))))"

definition web_search ::
  "helpers \<Rightarrow> 'd driver \<Rightarrow> exn + bool \<Rightarrow> WebSearchInput \<Rightarrow> 'd world
     \<Rightarrow> (exn + WebSearchOutput) \<times> 'd world" where
  "web_search h drv get_browser_manager input_data w =
     (let q = strip (WebSearchInput.query input_data);
          eng = lower (WebSearchInput.engine input_data);
          n = min (num_results input_data) 20;
          start_time = now w
      in if q = [] then (Inr (search_error q eng ''Search query cannot be empty''), w)
         else
           (case web_search_try h drv get_browser_manager q eng n start_time w of
              (Inr out, w') \<Rightarrow> (Inr out, w')
            | (Inl e, w') \<Rightarrow>
                (Inr ((search_error q eng (''Search error: '' @ message e))
                        \<lparr>metadata := [''duration_seconds'' \<mapsto> MTime (now w' - start_time)]\<rparr>),
                 w')))"

section \<open>Test doubles\<close>

text \<open>
  A helper set whose validator rejects the loopback address and whose parser returns a
  given page; a driver without state whose navigation and ready state are given; and a
  world in which nothing has been called yet.
\<close>

definition test_helpers :: "tag \<Rightarrow> helpers" where
  "test_helpers page =
     \<lparr>validate_url_security =
        (\<lambda>u allow_private. Inr (\<not> str_in ''127.0.0.1'' u, ''private address'')),
      normalize_url = Inr,
      clean_text_content = Inr,
      truncate_text = (\<lambda>s n. Inr (take n s)),
      parse_html_with_soup = (\<lambda>s. Inr page),
      extract_element_text = (\<lambda>t. Inr (contents t)),
      quote_plus = map (\<lambda>c. if c = CHR '' '' then CHR ''+'' else c),
      urljoin = (\<lambda>base u. base @ u)\<rparr>"

definition test_driver :: "exn + unit \<Rightarrow> exn + string \<Rightarrow> unit driver" where
  "test_driver get_outcome ready_state =
     \<lparr>get_driver = (\<lambda>d. (Inr (), d, 0)),
      get = (\<lambda>u d. (get_outcome, d, 0)),
      execute_script = (\<lambda>script d. (ready_state, d, 0)),
      current_url = (\<lambda>d. (Inr ''https://example.com/'', d, 0)),
      title = (\<lambda>d. (Inr ''Example Domain'', d, 0)),
      page_source = (\<lambda>d. (Inr ''<html></html>'', d, 0)),
      find_elements = (\<lambda>by selector d. (Inr 0, d, 0))\<rparr>"

definition fresh_world :: "unit world" where
  "fresh_world = \<lparr>driver_state = (), now = 0, calls = []\<rparr>"

text \<open>
  Result pages of arXiv: an entry is a result element whose title link has the given
  text and \<open>href\<close>; the entry without a link has no title to extract.
\<close>

definition arxiv_entry :: "string \<Rightarrow> string \<Rightarrow> tag" where
  "arxiv_entry t href = Tag [] t [(''p.title a'', [Tag [(''href'', href)] t []])]"

definition entry_without_link :: tag where
  "entry_without_link = Tag [] ''Showing 1-3 of 3 results'' []"

definition arxiv_page :: "tag list \<Rightarrow> tag" where
  "arxiv_page entries = Tag [] [] [(''li.arxiv-result'', entries)]"

definition page_with_gap :: tag where
  "page_with_gap =
     arxiv_page [arxiv_entry ''Quantum error correction'' ''https://arxiv.org/abs/2401.00001'',
                 entry_without_link,
                 arxiv_entry ''Surface codes'' ''/abs/2401.00002'']"

definition search_for :: "string \<Rightarrow> string \<Rightarrow> int \<Rightarrow> WebSearchInput" where
  "search_for q eng n =
     \<lparr>WebSearchInput.query = q, WebSearchInput.engine = eng, num_results = n\<rparr>"

definition page_of_two :: tag where
  "page_of_two =
     arxiv_page [arxiv_entry ''Quantum error correction'' ''https://arxiv.org/abs/2401.00001'',
                 arxiv_entry ''Surface codes'' ''/abs/2401.00002'']"

section \<open>Observations on a world\<close>

text \<open>
  Every attempt of \<open>_fetch_page_with_retry\<close> starts with \<open>get_driver()\<close> and calls it
  once, so the number of these calls counts the attempts.
\<close>

definition get_driver_calls :: "'d world \<Rightarrow> nat" where
  "get_driver_calls w = length (filter (\<lambda>c. c = GetDriver) (calls w))"

abbreviation ready_script :: string where
  "ready_script \<equiv> ''return document.readyState''"

section \<open>Lemmas\<close>

lemmas string_simps =
  strip_def is_space_def lower_def lower_char_def startswith_def is_recoverable_def

subsection \<open>Driver calls and sleeps\<close>

lemma call_driver_now: "call_driver c f w = (r, w') \<Longrightarrow> now w \<le> now w'"
  by (auto simp: call_driver_def split: prod.splits)

lemma call_driver_calls: "call_driver c f w = (r, w') \<Longrightarrow> calls w' = calls w @ [c]"
  by (auto simp: call_driver_def split: prod.splits)

lemma call_driver_result: "call_driver c f w = (r, w') \<Longrightarrow> r = fst (f (driver_state w))"
  by (auto simp: call_driver_def split: prod.splits)

lemma sleep_now [simp]: "now (sleep ms w) = now w + ms"
  by (simp add: sleep_def)

lemma sleep_calls [simp]: "calls (sleep ms w) = calls w @ [Sleep ms]"
  by (simp add: sleep_def)

lemma get_driver_calls_sleep [simp]: "get_driver_calls (sleep ms w) = get_driver_calls w"
  by (simp add: get_driver_calls_def)

lemma get_driver_calls_call_driver:
  "call_driver c f w = (r, w') \<Longrightarrow>
     get_driver_calls w' = get_driver_calls w + (if c = GetDriver then 1 else 0)"
  by (auto simp: get_driver_calls_def dest: call_driver_calls)

subsection \<open>The retry loop\<close>

lemma retry_returns_first:
  "fn w = (Inr r, w') \<Longrightarrow> retry n wt fn k w = (Inr r, w')"
  by (simp add: retry.simps [of n wt fn k w])

lemma retry_raises_last:
  "fn w = (Inl e, w') \<Longrightarrow> n \<le> k \<Longrightarrow> retry n wt fn k w = (Inl e, w')"
  by (simp add: retry.simps [of n wt fn k w])

lemma retry_again:
  "fn w = (Inl e, w') \<Longrightarrow> k < n \<Longrightarrow>
     retry n wt fn k w = retry n wt fn (Suc k) (sleep (1000 * wt k) w')"
  by (simp add: retry.simps [of n wt fn k w])

lemma retry_returns:
  "retry n wt fn k w = (Inr r, w') \<Longrightarrow> \<exists>w0 w1. fn w0 = (Inr r, w1)"
proof (induction n wt fn k w rule: retry.induct)
  case (1 n wt fn k w)
  show ?case
  proof (cases "fn w")
    case (Pair a w1)
    show ?thesis
    proof (cases a)
      case (Inr r')
      with Pair "1.prems" show ?thesis
        by (auto simp: retry.simps [of n wt fn k w])
    next
      case (Inl e)
      with Pair "1.prems" "1.IH" show ?thesis
        by (auto simp: retry.simps [of n wt fn k w] split: if_splits)
    qed
  qed
qed

subsection \<open>The readiness loop of the fetch\<close>

lemma wait_loop_done:
  "\<not> now w < end_time \<Longrightarrow> wait_for_page_load_loop drv end_time w = w"
  by (subst wait_for_page_load_loop.simps) simp

lemma wait_loop_complete:
  "now w < end_time \<Longrightarrow>
   call_driver (ExecuteScript ready_script) (execute_script drv ready_script) w
     = (Inr ''complete'', w1) \<Longrightarrow>
   wait_for_page_load_loop drv end_time w = sleep 500 w1"
  by (subst wait_for_page_load_loop.simps) simp

lemma wait_loop_again:
  "now w < end_time \<Longrightarrow>
   call_driver (ExecuteScript ready_script) (execute_script drv ready_script) w = (r, w1) \<Longrightarrow>
   r \<noteq> Inr ''complete'' \<Longrightarrow>
   wait_for_page_load_loop drv end_time w = wait_for_page_load_loop drv end_time (sleep 100 w1)"
  by (subst wait_for_page_load_loop.simps) (auto split: sum.splits)

text \<open>Induction along the polls: each one moves the clock on by a tenth of a second.\<close>

lemma wait_loop_induct [case_names finished poll]:
  assumes "\<And>w. \<not> now w < end_time \<Longrightarrow> P w"
    and "\<And>w r w1. now w < end_time \<Longrightarrow>
           call_driver (ExecuteScript ready_script) (execute_script drv ready_script) w
             = (r, w1) \<Longrightarrow>
           (r \<noteq> Inr ''complete'' \<Longrightarrow> P (sleep 100 w1)) \<Longrightarrow> P w"
  shows "P w"
proof (induction "end_time - now w" arbitrary: w rule: less_induct)
  case less
  show ?case
  proof (cases "now w < end_time")
    case False
    then show ?thesis by (rule assms(1))
  next
    case True
    obtain r w1 where c: "call_driver (ExecuteScript ready_script)
        (execute_script drv ready_script) w = (r, w1)"
      by (cases "call_driver (ExecuteScript ready_script)
        (execute_script drv ready_script) w") auto
    have "end_time - now (sleep 100 w1) < end_time - now w"
      using True call_driver_now [OF c] by simp
    then have "P (sleep 100 w1)" by (rule less)
    with True c show ?thesis by (rule assms(2))
  qed
qed

lemma wait_loop_get_driver_calls:
  "get_driver_calls (wait_for_page_load_loop drv end_time w) = get_driver_calls w"
proof (induction w rule: wait_loop_induct [where end_time = end_time and drv = drv])
  case (finished w)
  then show ?case by (simp add: wait_loop_done)
next
  case (poll w r w1)
  have g: "get_driver_calls w1 = get_driver_calls w"
    using get_driver_calls_call_driver [OF poll(2)] by simp
  show ?case
  proof (cases "r = Inr ''complete''")
    case True
    with poll(1,2) g show ?thesis by (simp add: wait_loop_complete)
  next
    case False
    with poll g show ?thesis by (simp add: wait_loop_again [OF poll(1,2)])
  qed
qed

text \<open>
  When the ready state is never \<open>complete\<close>, the loop ends only once the clock has
  reached \<open>end_time\<close>, and all it has done is to poll and to sleep.
\<close>

lemma wait_loop_never_ready:
  assumes "\<And>d. fst (execute_script drv ready_script d) \<noteq> Inr ''complete''"
  shows "end_time \<le> now (wait_for_page_load_loop drv end_time w) \<and>
         now w \<le> now (wait_for_page_load_loop drv end_time w) \<and>
         (\<exists>polls. calls (wait_for_page_load_loop drv end_time w) = calls w @ polls \<and>
                   set polls \<subseteq> {ExecuteScript ready_script, Sleep 100})"
proof (induction w rule: wait_loop_induct [where end_time = end_time and drv = drv])
  case (finished w)
  then show ?case by (simp add: wait_loop_done)
next
  case (poll w r w1)
  have r: "r \<noteq> Inr ''complete''"
    using call_driver_result [OF poll(2)] assms by simp
  note eq = wait_loop_again [OF poll(1,2) r]
  from poll(3) [OF r] obtain polls where
    1: "end_time \<le> now (wait_for_page_load_loop drv end_time (sleep 100 w1))"
    and 2: "now (sleep 100 w1) \<le> now (wait_for_page_load_loop drv end_time (sleep 100 w1))"
    and 3: "calls (wait_for_page_load_loop drv end_time (sleep 100 w1))
              = calls (sleep 100 w1) @ polls"
    and 4: "set polls \<subseteq> {ExecuteScript ready_script, Sleep 100}"
    by auto
  have "calls (wait_for_page_load_loop drv end_time w) =
        calls w @ (ExecuteScript ready_script # Sleep 100 # polls)"
    using 3 call_driver_calls [OF poll(2)] by (simp add: eq)
  moreover have "set (ExecuteScript ready_script # Sleep 100 # polls)
                   \<subseteq> {ExecuteScript ready_script, Sleep 100}"
    using 4 by simp
  ultimately have "\<exists>polls. calls (wait_for_page_load_loop drv end_time w) = calls w @ polls \<and>
                   set polls \<subseteq> {ExecuteScript ready_script, Sleep 100}"
    by blast
  moreover have "now w \<le> now (wait_for_page_load_loop drv end_time w)"
    using 2 call_driver_now [OF poll(2)] by (simp add: eq)
  ultimately show ?case using 1 by (simp add: eq)
qed

subsection \<open>One attempt of the fetch\<close>

lemma fetch_page_body_get_driver_calls:
  "fetch_page_body h drv u w = (r, w') \<Longrightarrow> get_driver_calls w' = Suc (get_driver_calls w)"
  by (auto simp: fetch_page_body_def wait_for_page_load_def wait_loop_get_driver_calls Let_def
           dest!: get_driver_calls_call_driver split: prod.splits sum.splits)

lemma fetch_page_attempt_get_driver_calls:
  "fetch_page_attempt h drv u w = (r, w') \<Longrightarrow> get_driver_calls w' = Suc (get_driver_calls w)"
  by (auto simp: fetch_page_attempt_def dest: fetch_page_body_get_driver_calls
           split: prod.splits sum.splits exn_class.splits if_splits)

text \<open>
  What the two \<open>except\<close> clauses and the decorator make of an exception of the body:
  a \<open>TimeoutException\<close> becomes an error result; another \<open>WebDriverException\<close> is
  raised again when its text has a network keyword and becomes an error result
  otherwise; any other exception is caught by no clause and leaves the attempt as it is.
\<close>

lemma fetch_page_attempt_raises:
  "fetch_page_body h drv u w = (Inl e, w') \<Longrightarrow>
   cls e \<noteq> TimeoutException \<Longrightarrow>
   is_recoverable (lower (message e)) \<Longrightarrow> fetch_page_attempt h drv u w = (Inl e, w')"
  by (cases "cls e") (simp_all add: fetch_page_attempt_def)

lemma fetch_page_attempt_fatal:
  "fetch_page_body h drv u w = (Inl e, w') \<Longrightarrow>
   cls e \<noteq> OtherException \<Longrightarrow>
   \<not> is_recoverable (lower (message e)) \<Longrightarrow>
   fetch_page_attempt h drv u w =
     (Inr (fetch_error u
             ((if cls e = TimeoutException then ''Page load timeout: ''
               else ''Browser error: '') @ message e)), w')"
  by (cases "cls e") (simp_all add: fetch_page_attempt_def)

lemma fetch_page_body_status:
  "fetch_page_body h drv u w = (Inr out, w') \<Longrightarrow> FetchUrlOutput.status out = ''ok''"
  by (auto simp: fetch_page_body_def Let_def split: prod.splits sum.splits)

lemma fetch_page_attempt_status:
  "fetch_page_attempt h drv u w = (Inr out, w') \<Longrightarrow>
     FetchUrlOutput.status out = ''ok'' \<or> FetchUrlOutput.status out = ''error''"
  by (auto simp: fetch_page_attempt_def fetch_error_def dest: fetch_page_body_status
           split: prod.splits sum.splits exn_class.splits if_splits)

lemma fetch_page_with_retry_status:
  "fetch_page_with_retry h drv u w = (Inr out, w') \<Longrightarrow>
     FetchUrlOutput.status out = ''ok'' \<or> FetchUrlOutput.status out = ''error''"
  unfolding fetch_page_with_retry_def
  by (drule retry_returns) (auto dest: fetch_page_attempt_status)

lemma fetch_url_status:
  "\<exists>out w'. fetch_url h drv gbm u w = (Inr out, w') \<and>
     (FetchUrlOutput.status out = ''ok'' \<or> FetchUrlOutput.status out = ''error'')"
  by (auto simp: fetch_url_def fetch_url_try_def fetch_error_def Let_def
           dest: fetch_page_with_retry_status
           split: prod.splits sum.splits if_splits)

lemma web_search_status:
  "\<exists>out w'. web_search h drv gbm inp w = (Inr out, w') \<and>
     (WebSearchOutput.status out = ''ok'' \<or> WebSearchOutput.status out = ''error'')"
  by (auto simp: web_search_def web_search_try_def search_error_def Let_def
           split: prod.splits sum.splits if_splits option.splits)

lemma fetch_page_body_never_ready:
  assumes nr: "\<And>d. fst (execute_script drv ready_script d) \<noteq> Inr ''complete''"
    and gd: "\<And>d. fst (get_driver drv d) = Inr ()"
    and g: "\<And>d. fst (get drv u d) = Inr ()"
    and cu: "\<And>d. \<exists>f. fst (current_url drv d) = Inr f"
  shows "\<exists>out w' polls. fetch_page_body h drv u w = (Inr out, w') \<and>
           FetchUrlOutput.status out = ''ok'' \<and> FetchUrlOutput.error out = None \<and>
           now w + 30000 \<le> now w' \<and>
           calls w' = calls w @ [GetDriver, Get u] @ polls @ [CurrentUrl, Title, PageSource] \<and>
           set polls \<subseteq> {ExecuteScript ready_script, Sleep 100}"
proof -
  obtain w1 where c1: "call_driver GetDriver (get_driver drv) w = (Inr (), w1)"
    using gd [of "driver_state w"]
    by (cases "call_driver GetDriver (get_driver drv) w") (auto dest: call_driver_result)
  obtain w2 where c2: "call_driver (Get u) (get drv u) w1 = (Inr (), w2)"
    using g [of "driver_state w1"]
    by (cases "call_driver (Get u) (get drv u) w1") (auto dest: call_driver_result)
  define w3 where "w3 = wait_for_page_load drv 30 w2"
  obtain f w4 where c4: "call_driver CurrentUrl (current_url drv) w3 = (Inr f, w4)"
    using cu [of "driver_state w3"]
    by (cases "call_driver CurrentUrl (current_url drv) w3") (auto dest: call_driver_result)
  obtain rt w5 where c5: "call_driver Title (driver.title drv) w4 = (rt, w5)"
    by (cases "call_driver Title (driver.title drv) w4") auto
  obtain rh w6 where c6: "call_driver PageSource (page_source drv) w5 = (rh, w6)"
    by (cases "call_driver PageSource (page_source drv) w5") auto
  from wait_loop_never_ready [OF nr, of "now w2 + 1000 * 30" w2]
  obtain polls where t3: "now w2 + 30000 \<le> now w3"
    and p3: "calls w3 = calls w2 @ polls"
    and ps: "set polls \<subseteq> {ExecuteScript ready_script, Sleep 100}"
    by (auto simp: w3_def wait_for_page_load_def)
  have t: "now w + 30000 \<le> now w6"
    using call_driver_now [OF c1] call_driver_now [OF c2] t3 call_driver_now [OF c4]
      call_driver_now [OF c5] call_driver_now [OF c6] by linarith
  have c: "calls w6 = calls w @ [GetDriver, Get u] @ polls @ [CurrentUrl, Title, PageSource]"
    using call_driver_calls [OF c1] call_driver_calls [OF c2] p3 call_driver_calls [OF c4]
      call_driver_calls [OF c5] call_driver_calls [OF c6] by simp
  have "\<exists>out. fetch_page_body h drv u w = (Inr out, w6) \<and>
           FetchUrlOutput.status out = ''ok'' \<and> FetchUrlOutput.error out = None"
    using c1 c2 c4 c5 c6 by (simp add: fetch_page_body_def w3_def [symmetric] Let_def)
  with t c ps show ?thesis by blast
qed

subsection \<open>Parsing a result page\<close>

lemma extract_each_append:
  "extract_each extract (xs @ ys) = extract_each extract xs @ extract_each extract ys"
  by (induction xs) (auto split: sum.splits option.splits)

text \<open>An element whose extraction raises or returns \<open>None\<close> leaves the others as they are.\<close>

lemma extract_each_skip:
  "extract el = Inl x \<or> extract el = Inr None \<Longrightarrow>
   extract_each extract (before @ el # after) =
     extract_each extract before @ extract_each extract after"
  by (auto simp: extract_each_append)

lemma extract_each_length:
  "length (extract_each (\<lambda>el. Inr (f el)) xs) = length (filter (\<lambda>el. f el \<noteq> None) xs)"
  by (induction xs) (auto split: option.splits)

lemma extract_each_set:
  "r \<in> set (extract_each (\<lambda>el. Inr (f el)) xs) \<Longrightarrow> \<exists>el\<in>set xs. f el = Some r"
  by (induction xs) (auto split: option.splits)

lemma extract_result_Some:
  "extract_result h eng el = Some r \<Longrightarrow>
   \<exists>title_element t0.
      first_match el (title_selectors eng) = Some title_element \<and>
      extract_element_text h title_element = Inr t0 \<and> t0 \<noteq> [] \<and>
      clean_text_content h t0 = Inr (SearchResult.title r) \<and>
      first_href el (url_selectors eng) \<noteq> [] \<and>
      (startswith (first_href el (url_selectors eng)) ''/'' \<longrightarrow>
         SearchResult.url r = urljoin h (base_url eng) (first_href el (url_selectors eng)))"
  by (auto simp: extract_result_def Let_def split: option.splits sum.splits if_splits)

lemma parse_results_eq:
  "parse_html_with_soup h src = Inr soup \<Longrightarrow>
   parse_results h eng src n =
     extract_each (\<lambda>el. Inr (extract_result h eng el)) (slice_to (result_elements eng soup) n)"
  by (simp add: parse_results_def slice_to_def)

lemma dispatch_None_iff: "dispatch e = None \<longleftrightarrow> e \<notin> set known_engines"
  by (simp add: dispatch_def known_engines_def)

lemmas page_simps =
  page_with_gap_def page_of_two_def arxiv_page_def arxiv_entry_def entry_without_link_def
  result_elements_def select_def select_one_def extract_result_def test_helpers_def
  startswith_def

section \<open>The claims\<close>

text \<open>
  C1. A URL that the security validator rejects makes \<open>fetch_url\<close> return at once a
  result with status \<open>error\<close>, and the world is the one it started in: the driver state
  is untouched and no call has been added to the list of calls.
\<close>

theorem fetch_rejected_url_makes_no_driver_call:
  assumes "validate_url_security h (strip u) False = Inr (False, reason)"
  shows "\<exists>out. fetch_url h drv gbm u w = (Inr out, w) \<and>
           FetchUrlOutput.status out = ''error'' \<and>
           FetchUrlOutput.error out = Some (''URL validation failed: '' @ reason)"
  using assms by (simp add: fetch_url_def fetch_url_try_def fetch_error_def Let_def)

theorem fetch_rejected_url_witness:
  "\<exists>out. fetch_url (test_helpers (Tag [] [] [])) (test_driver (Inr ()) (Inr ''complete''))
            (Inr True) ''http://127.0.0.1/admin'' fresh_world = (Inr out, fresh_world) \<and>
         FetchUrlOutput.status out = ''error'' \<and>
         FetchUrlOutput.error out = Some (''URL validation failed: '' @ ''private address'')"
  by (rule fetch_rejected_url_makes_no_driver_call) (simp add: test_helpers_def string_simps)

text \<open>
  C2, as the code has it. When the ready state never becomes \<open>complete\<close>, and the
  navigation and the read of the final URL succeed, the readiness wait raises nothing:
  it polls and sleeps until its 30 seconds are over, and \<open>fetch_url\<close> then reads the page
  back and returns status \<open>ok\<close> with no error message. The calls of the fetch are the
  navigation, the polls and the three reads, in this order.
\<close>

theorem fetch_never_ready_returns_ok:
  assumes "validate_url_security h (strip u) False = Inr (True, reason)"
    and "normalize_url h (strip u) = Inr nu"
    and "\<And>d. fst (execute_script drv ready_script d) \<noteq> Inr ''complete''"
    and "\<And>d. fst (get_driver drv d) = Inr ()"
    and "\<And>d. fst (get drv nu d) = Inr ()"
    and "\<And>d. \<exists>f. fst (current_url drv d) = Inr f"
  shows "\<exists>out w' polls. fetch_url h drv (Inr True) u w = (Inr out, w') \<and>
           FetchUrlOutput.status out = ''ok'' \<and> FetchUrlOutput.error out = None \<and>
           now w + 30000 \<le> now w' \<and>
           calls w' = calls w @ [GetDriver, Get nu] @ polls @ [CurrentUrl, Title, PageSource] \<and>
           set polls \<subseteq> {ExecuteScript ready_script, Sleep 100}"
proof -
  from fetch_page_body_never_ready [OF assms(3-6), of h w]
  obtain out w' polls where b: "fetch_page_body h drv nu w = (Inr out, w')"
    and s: "FetchUrlOutput.status out = ''ok''" "FetchUrlOutput.error out = None"
    and t: "now w + 30000 \<le> now w'"
    and c: "calls w' = calls w @ [GetDriver, Get nu] @ polls @ [CurrentUrl, Title, PageSource]"
    and p: "set polls \<subseteq> {ExecuteScript ready_script, Sleep 100}"
    by blast
  have "fetch_page_attempt h drv nu w = (Inr out, w')"
    using b by (simp add: fetch_page_attempt_def)
  then have "fetch_page_with_retry h drv nu w = (Inr out, w')"
    by (simp add: fetch_page_with_retry_def retry_returns_first)
  then have "\<exists>out'. fetch_url h drv (Inr True) u w = (Inr out', w') \<and>
     FetchUrlOutput.status out' = ''ok'' \<and> FetchUrlOutput.error out' = None"
    using assms(1,2) s by (simp add: fetch_url_def fetch_url_try_def Let_def)
  with t c p show ?thesis by blast
qed

theorem fetch_never_ready_witness:
  "\<exists>out w' polls.
     fetch_url (test_helpers (Tag [] [] [])) (test_driver (Inr ()) (Inr ''loading'')) (Inr True)
       ''https://example.com/slow'' fresh_world = (Inr out, w') \<and>
     FetchUrlOutput.status out = ''ok'' \<and> FetchUrlOutput.error out = None \<and>
     now fresh_world + 30000 \<le> now w' \<and>
     calls w' = calls fresh_world @ [GetDriver, Get ''https://example.com/slow''] @ polls
                  @ [CurrentUrl, Title, PageSource] \<and>
     set polls \<subseteq> {ExecuteScript ready_script, Sleep 100}"
  by (rule fetch_never_ready_returns_ok [where reason = "''private address''"])
     (simp_all add: test_helpers_def test_driver_def string_simps)

text \<open>
  The claim as the specification words it fails: the page of this driver is \<open>loading\<close>
  for ever, and the fetch returns status \<open>ok\<close> and no error.
\<close>

theorem fetch_never_ready_counterexample:
  "map_sum id FetchUrlOutput.status
     (fst (fetch_url (test_helpers (Tag [] [] [])) (test_driver (Inr ()) (Inr ''loading''))
             (Inr True) ''https://example.com/slow'' fresh_world)) = Inr ''ok'' \<and>
   map_sum id FetchUrlOutput.error
     (fst (fetch_url (test_helpers (Tag [] [] [])) (test_driver (Inr ()) (Inr ''loading''))
             (Inr True) ''https://example.com/slow'' fresh_world)) = Inr None"
proof -
  let ?h = "test_helpers (Tag [] [] [])" and ?drv = "test_driver (Inr ()) (Inr ''loading'')"
  let ?u = "''https://example.com/slow''"
  have "\<exists>out w' polls. fetch_page_body ?h ?drv ?u fresh_world = (Inr out, w') \<and>
           FetchUrlOutput.status out = ''ok'' \<and> FetchUrlOutput.error out = None \<and>
           now fresh_world + 30000 \<le> now w' \<and>
           calls w' = calls fresh_world @ [GetDriver, Get ?u] @ polls
                        @ [CurrentUrl, Title, PageSource] \<and>
           set polls \<subseteq> {ExecuteScript ready_script, Sleep 100}"
    by (rule fetch_page_body_never_ready) (simp_all add: test_driver_def)
  then obtain out w' where b: "fetch_page_body ?h ?drv ?u fresh_world = (Inr out, w')"
    and s: "FetchUrlOutput.status out = ''ok''" "FetchUrlOutput.error out = None"
    by blast
  have "fetch_page_attempt ?h ?drv ?u fresh_world = (Inr out, w')"
    using b by (simp add: fetch_page_attempt_def)
  then have r: "fetch_page_with_retry ?h ?drv ?u fresh_world = (Inr out, w')"
    by (simp add: fetch_page_with_retry_def retry_returns_first)
  have v: "validate_url_security ?h (strip ?u) False = Inr (True, ''private address'')"
    and n: "normalize_url ?h (strip ?u) = Inr ?u"
    by (simp_all add: test_helpers_def string_simps)
  show ?thesis
    using v n r s unfolding fetch_url_def fetch_url_try_def Let_def by simp
qed

text \<open>
  C3, as the code has it. For every engine, a page that parses and a requested number
  \<open>n \<ge> 0\<close>: the results are as many as there are, among the first \<open>n\<close> result
  elements, elements from which a result can be extracted. So they are at most the
  smaller of \<open>n\<close> and the number of result elements, and exactly that many when
  every one of these elements yields a result. Each result comes from one of these
  elements: its title is the cleaned text of the element's title match, a text that was
  not empty; the element had a non-empty \<open>href\<close>; and when that \<open>href\<close> starts with
  \<open>/\<close>, the URL of the result is \<open>urljoin\<close> of the engine's base URL and the \<open>href\<close>.
\<close>

theorem parse_results_count_and_shape:
  assumes "parse_html_with_soup h src = Inr soup" and "0 \<le> n"
  shows "length (parse_results h eng src n) =
           length (filter (\<lambda>el. extract_result h eng el \<noteq> None)
                     (take (nat n) (result_elements eng soup))) \<and>
         length (parse_results h eng src n) \<le> min (nat n) (length (result_elements eng soup)) \<and>
         ((\<forall>el\<in>set (take (nat n) (result_elements eng soup)). extract_result h eng el \<noteq> None) \<longrightarrow>
            length (parse_results h eng src n) = min (nat n) (length (result_elements eng soup))) \<and>
         (\<forall>r\<in>set (parse_results h eng src n).
            \<exists>el\<in>set (take (nat n) (result_elements eng soup)). \<exists>title_element t0.
              first_match el (title_selectors eng) = Some title_element \<and>
              extract_element_text h title_element = Inr t0 \<and> t0 \<noteq> [] \<and>
              clean_text_content h t0 = Inr (SearchResult.title r) \<and>
              first_href el (url_selectors eng) \<noteq> [] \<and>
              (startswith (first_href el (url_selectors eng)) ''/'' \<longrightarrow>
                 SearchResult.url r =
                   urljoin h (base_url eng) (first_href el (url_selectors eng))))"
proof -
  let ?els = "take (nat n) (result_elements eng soup)"
  have eq: "parse_results h eng src n = extract_each (\<lambda>el. Inr (extract_result h eng el)) ?els"
    using assms by (simp add: parse_results_eq slice_to_def)
  have 1: "length (parse_results h eng src n) =
           length (filter (\<lambda>el. extract_result h eng el \<noteq> None) ?els)"
    by (simp add: eq extract_each_length)
  have "length (filter (\<lambda>el. extract_result h eng el \<noteq> None) ?els) \<le> length ?els"
    by (rule length_filter_le)
  then have 2: "length (parse_results h eng src n)
                  \<le> min (nat n) (length (result_elements eng soup))"
    using 1 by (simp add: min.commute)
  have 3: "(\<forall>el\<in>set ?els. extract_result h eng el \<noteq> None) \<longrightarrow>
            length (parse_results h eng src n) = min (nat n) (length (result_elements eng soup))"
    using 1 by (auto simp: min.commute)
  have 4: "\<forall>r\<in>set (parse_results h eng src n).
            \<exists>el\<in>set ?els. \<exists>title_element t0.
              first_match el (title_selectors eng) = Some title_element \<and>
              extract_element_text h title_element = Inr t0 \<and> t0 \<noteq> [] \<and>
              clean_text_content h t0 = Inr (SearchResult.title r) \<and>
              first_href el (url_selectors eng) \<noteq> [] \<and>
              (startswith (first_href el (url_selectors eng)) ''/'' \<longrightarrow>
                 SearchResult.url r =
                   urljoin h (base_url eng) (first_href el (url_selectors eng)))"
  proof
    fix r assume "r \<in> set (parse_results h eng src n)"
    then obtain el where "el \<in> set ?els" "extract_result h eng el = Some r"
      unfolding eq by (auto dest: extract_each_set)
    then show "\<exists>el\<in>set ?els. \<exists>title_element t0.
              first_match el (title_selectors eng) = Some title_element \<and>
              extract_element_text h title_element = Inr t0 \<and> t0 \<noteq> [] \<and>
              clean_text_content h t0 = Inr (SearchResult.title r) \<and>
              first_href el (url_selectors eng) \<noteq> [] \<and>
              (startswith (first_href el (url_selectors eng)) ''/'' \<longrightarrow>
                 SearchResult.url r =
                   urljoin h (base_url eng) (first_href el (url_selectors eng)))"
      using extract_result_Some [of h eng el r] by blast
  qed
  from 1 2 3 4 show ?thesis by blast
qed

theorem parse_results_witness:
  "parse_html_with_soup (test_helpers page_of_two) ''<html></html>'' = Inr page_of_two \<and>
   (0::int) \<le> 2 \<and>
   length (parse_results (test_helpers page_of_two) ArXiv ''<html></html>'' 2) =
     min (nat 2) (length (result_elements ArXiv page_of_two)) \<and>
   map SearchResult.url (parse_results (test_helpers page_of_two) ArXiv ''<html></html>'' 2) =
     [''https://arxiv.org/abs/2401.00001'', ''https://arxiv.org/abs/2401.00002'']"
proof -
  have p: "parse_html_with_soup (test_helpers page_of_two) ''<html></html>'' = Inr page_of_two"
    by (simp add: test_helpers_def)
  have n: "(0::int) \<le> 2" by simp
  have a: "\<forall>el\<in>set (take (nat 2) (result_elements ArXiv page_of_two)).
             extract_result (test_helpers page_of_two) ArXiv el \<noteq> None"
    by (simp add: page_simps)
  have u: "map SearchResult.url
             (parse_results (test_helpers page_of_two) ArXiv ''<html></html>'' 2) =
     [''https://arxiv.org/abs/2401.00001'', ''https://arxiv.org/abs/2401.00002'']"
    by (simp add: parse_results_def slice_to_def page_simps)
  from parse_results_count_and_shape [OF p n, of ArXiv] a p n u show ?thesis by blast
qed

text \<open>
  The claim as the specification words it fails: this page has three result elements,
  three results are asked for, and two come back, since the second element has no title
  link.
\<close>

theorem parse_results_counterexample:
  "length (parse_results (test_helpers page_with_gap) ArXiv ''<html></html>'' 3) = 2 \<and>
   min (nat 3) (length (result_elements ArXiv page_with_gap)) = 3"
  by (simp add: parse_results_def slice_to_def page_simps)

text \<open>
  C4, as the code has it. A search with a non-empty query, a known engine and a browser
  manager, whose navigation raises (any exception, a network error too): the engine's
  search routine catches it and makes no second attempt, and \<open>web_search\<close> returns
  status \<open>ok\<close> with no results. The calls are \<open>get_driver\<close> and the one navigation.
\<close>

theorem search_driver_failure_returns_ok:
  assumes "strip (WebSearchInput.query inp) \<noteq> []"
    and "dispatch (lower (WebSearchInput.engine inp)) = Some eng"
    and "fst (get_driver drv (driver_state w)) = Inr ()"
    and "\<And>su d. \<exists>e. fst (get drv su d) = Inl e"
  shows "\<exists>out w'. web_search h drv (Inr True) inp w = (Inr out, w') \<and>
           WebSearchOutput.status out = ''ok'' \<and> WebSearchOutput.results out = [] \<and>
           calls w' = calls w @
             [GetDriver,
              Get (search_url h eng (strip (WebSearchInput.query inp))
                     (min (num_results inp) 20))]"
proof -
  let ?q = "strip (WebSearchInput.query inp)" and ?n = "min (num_results inp) 20"
  obtain w1 where c1: "call_driver GetDriver (get_driver drv) w = (Inr (), w1)"
    using assms(3)
    by (cases "call_driver GetDriver (get_driver drv) w") (auto dest: call_driver_result)
  obtain e w2 where c2: "call_driver (Get (search_url h eng ?q ?n))
                            (get drv (search_url h eng ?q ?n)) w1 = (Inl e, w2)"
    using assms(4) [of "search_url h eng ?q ?n" "driver_state w1"]
    by (cases "call_driver (Get (search_url h eng ?q ?n)) (get drv (search_url h eng ?q ?n)) w1")
       (auto dest: call_driver_result)
  have s: "search h drv eng ?q ?n w = ([], w2)"
    using c1 c2 by (simp add: search_def)
  have c: "calls w2 = calls w @ [GetDriver, Get (search_url h eng ?q ?n)]"
    using call_driver_calls [OF c1] call_driver_calls [OF c2] by simp
  show ?thesis
    using assms(1,2) s c by (simp add: web_search_def web_search_try_def Let_def)
qed

theorem search_driver_failure_witness:
  "\<exists>out w'. web_search (test_helpers page_of_two)
       (test_driver (Inl (Exn WebDriverException ''net::ERR_CONNECTION_RESET'')) (Inr ''complete''))
       (Inr True) (search_for ''quantum computing'' ''arxiv'' 5) fresh_world
       = (Inr out, w') \<and>
     WebSearchOutput.status out = ''ok'' \<and> WebSearchOutput.results out = [] \<and>
     calls w' = calls fresh_world @
        [GetDriver,
         Get (search_url (test_helpers page_of_two) ArXiv
                (strip (WebSearchInput.query (search_for ''quantum computing'' ''arxiv'' 5)))
                (min (num_results (search_for ''quantum computing'' ''arxiv'' 5)) 20))]"
  by (rule search_driver_failure_returns_ok)
     (simp_all add: search_for_def strip_def is_space_def lower_def lower_char_def dispatch_def
        test_driver_def)

text \<open>
  The claim as the specification words it fails: the navigation of this driver raises a
  network error, and the search returns status \<open>ok\<close> after one navigation.
\<close>

theorem search_driver_failure_counterexample:
  "map_sum id WebSearchOutput.status
     (fst (web_search (test_helpers page_of_two)
       (test_driver (Inl (Exn WebDriverException ''net::ERR_CONNECTION_RESET'')) (Inr ''complete''))
       (Inr True) (search_for ''quantum computing'' ''arxiv'' 5)
       fresh_world)) = Inr ''ok'' \<and>
   calls (snd (web_search (test_helpers page_of_two)
       (test_driver (Inl (Exn WebDriverException ''net::ERR_CONNECTION_RESET'')) (Inr ''complete''))
       (Inr True) (search_for ''quantum computing'' ''arxiv'' 5)
       fresh_world)) =
     [GetDriver,
      Get ''https://arxiv.org/search/?query=quantum+computing&searchtype=all&abstracts=show&order=-announced_date_first&size=5'']"
  by (simp add: web_search_def web_search_try_def search_def call_driver_def Let_def
        strip_def is_space_def lower_def lower_char_def dispatch_def test_driver_def
        test_helpers_def fresh_world_def str_int_def search_for_def)

text \<open>
  C5, as the code has it. When every attempt ends in an exception that is not a Selenium
  \<open>TimeoutException\<close> and whose text has one of the network and time-out keywords, the
  retried fetch is three attempts, with a sleep of one second after the first and of two
  seconds after the second, and it raises what the third attempt raised. \<open>get_driver\<close>
  has been called three times more than before.
\<close>

theorem retry_transient_runs_three_attempts:
  assumes "\<And>w. \<exists>e w'. fetch_page_body h drv u w = (Inl e, w') \<and>
             cls e \<noteq> TimeoutException \<and> is_recoverable (lower (message e))"
  shows "\<exists>e1 w1 e2 w2 e3 w3.
           fetch_page_attempt h drv u w = (Inl e1, w1) \<and>
           fetch_page_attempt h drv u (sleep 1000 w1) = (Inl e2, w2) \<and>
           fetch_page_attempt h drv u (sleep 2000 w2) = (Inl e3, w3) \<and>
           fetch_page_with_retry h drv u w = (Inl e3, w3) \<and>
           get_driver_calls w3 = get_driver_calls w + 3"
proof -
  have fails: "\<exists>e w'. fetch_page_attempt h drv u w = (Inl e, w')" for w
    using assms [of w] by (auto dest: fetch_page_attempt_raises)
  obtain e1 w1 where a1: "fetch_page_attempt h drv u w = (Inl e1, w1)"
    using fails by blast
  obtain e2 w2 where a2: "fetch_page_attempt h drv u (sleep 1000 w1) = (Inl e2, w2)"
    using fails by blast
  obtain e3 w3 where a3: "fetch_page_attempt h drv u (sleep 2000 w2) = (Inl e3, w3)"
    using fails by blast
  let ?fn = "fetch_page_attempt h drv u" and ?wt = "wait_exponential 1 1 10"
  have w1: "1000 * ?wt 1 = 1000" and w2: "1000 * ?wt (Suc 1) = 2000"
    by (simp_all add: wait_exponential_def)
  have "retry 3 ?wt ?fn 1 w = retry 3 ?wt ?fn (Suc 1) (sleep 1000 w1)"
    using retry_again [where fn = ?fn and wt = ?wt and k = 1 and n = 3, OF a1] w1 by simp
  also have "\<dots> = retry 3 ?wt ?fn (Suc (Suc 1)) (sleep 2000 w2)"
    using retry_again [where fn = ?fn and wt = ?wt and k = "Suc 1" and n = 3, OF a2] w2 by simp
  also have "\<dots> = (Inl e3, w3)"
    using retry_raises_last [where fn = ?fn and wt = ?wt and k = "Suc (Suc 1)" and n = 3, OF a3]
    by simp
  finally have "fetch_page_with_retry h drv u w = (Inl e3, w3)"
    by (simp add: fetch_page_with_retry_def)
  moreover have "get_driver_calls w3 = get_driver_calls w + 3"
    using fetch_page_attempt_get_driver_calls [OF a1] fetch_page_attempt_get_driver_calls [OF a2]
      fetch_page_attempt_get_driver_calls [OF a3] by simp
  ultimately show ?thesis using a1 a2 a3 by blast
qed

theorem retry_transient_witness:
  "\<exists>e1 w1 e2 w2 e3 w3.
     fetch_page_attempt (test_helpers (Tag [] [] []))
        (test_driver (Inl (Exn WebDriverException ''net::ERR_CONNECTION_RESET''))
           (Inr ''complete''))
        ''https://example.com/'' fresh_world = (Inl e1, w1) \<and>
     fetch_page_attempt (test_helpers (Tag [] [] []))
        (test_driver (Inl (Exn WebDriverException ''net::ERR_CONNECTION_RESET''))
           (Inr ''complete''))
        ''https://example.com/'' (sleep 1000 w1) = (Inl e2, w2) \<and>
     fetch_page_attempt (test_helpers (Tag [] [] []))
        (test_driver (Inl (Exn WebDriverException ''net::ERR_CONNECTION_RESET''))
           (Inr ''complete''))
        ''https://example.com/'' (sleep 2000 w2) = (Inl e3, w3) \<and>
     fetch_page_with_retry (test_helpers (Tag [] [] []))
        (test_driver (Inl (Exn WebDriverException ''net::ERR_CONNECTION_RESET''))
           (Inr ''complete''))
        ''https://example.com/'' fresh_world = (Inl e3, w3) \<and>
     get_driver_calls w3 = get_driver_calls fresh_world + 3"
  by (rule retry_transient_runs_three_attempts)
     (simp add: fetch_page_body_def call_driver_def test_driver_def string_simps)

text \<open>
  The claim as the specification words it fails: the navigation of this driver always
  times out, with a text that has the keyword \<open>timeout\<close>, and the retried fetch is one
  attempt that returns an error result; there is no sleep and no second navigation.
\<close>

theorem retry_transient_counterexample:
  "is_recoverable (lower ''timeout: Timed out receiving message from renderer'') \<and>
   fst (fetch_page_with_retry (test_helpers (Tag [] [] []))
          (test_driver
             (Inl (Exn TimeoutException ''timeout: Timed out receiving message from renderer''))
             (Inr ''complete''))
          ''https://example.com/'' fresh_world) =
     Inr (fetch_error ''https://example.com/''
            ''Page load timeout: timeout: Timed out receiving message from renderer'') \<and>
   calls (snd (fetch_page_with_retry (test_helpers (Tag [] [] []))
          (test_driver
             (Inl (Exn TimeoutException ''timeout: Timed out receiving message from renderer''))
             (Inr ''complete''))
          ''https://example.com/'' fresh_world)) =
     [GetDriver, Get ''https://example.com/'']"
proof -
  let ?h = "test_helpers (Tag [] [] [])"
  let ?drv = "test_driver
     (Inl (Exn TimeoutException ''timeout: Timed out receiving message from renderer''))
     (Inr ''complete'')"
  let ?w = "fresh_world\<lparr>calls := [GetDriver, Get ''https://example.com/'']\<rparr>"
  have k: "is_recoverable (lower ''timeout: Timed out receiving message from renderer'')"
    by (simp add: string_simps)
  have "fetch_page_attempt ?h ?drv ''https://example.com/'' fresh_world =
          (Inr (fetch_error ''https://example.com/''
             ''Page load timeout: timeout: Timed out receiving message from renderer''), ?w)"
    by (simp add: fetch_page_attempt_def fetch_page_body_def call_driver_def test_driver_def
          fresh_world_def)
  then have "fetch_page_with_retry ?h ?drv ''https://example.com/'' fresh_world =
          (Inr (fetch_error ''https://example.com/''
             ''Page load timeout: timeout: Timed out receiving message from renderer''), ?w)"
    by (simp add: fetch_page_with_retry_def retry_returns_first)
  with k show ?thesis by (simp add: fresh_world_def)
qed

text \<open>
  C6, as the code has it. When the first attempt ends in a Selenium \<open>WebDriverException\<close>
  (a \<open>TimeoutException\<close> is one) whose text has none of the network and time-out
  keywords, the retried fetch is that one attempt: it returns the attempt's error result
  in the attempt's world, with one more call of \<open>get_driver\<close> and no sleep.
\<close>

theorem retry_fatal_runs_one_attempt:
  assumes "fetch_page_body h drv u w = (Inl e, w')"
    and "cls e \<noteq> OtherException"
    and "\<not> is_recoverable (lower (message e))"
  shows "fetch_page_with_retry h drv u w =
           (Inr (fetch_error u
                   ((if cls e = TimeoutException then ''Page load timeout: ''
                     else ''Browser error: '') @ message e)), w') \<and>
         FetchUrlOutput.status
           (fetch_error u
              ((if cls e = TimeoutException then ''Page load timeout: ''
                else ''Browser error: '') @ message e)) = ''error'' \<and>
         get_driver_calls w' = get_driver_calls w + 1"
  using fetch_page_attempt_fatal [OF assms] fetch_page_body_get_driver_calls [OF assms(1)]
  by (simp add: fetch_page_with_retry_def retry_returns_first fetch_error_def)

theorem retry_fatal_witness:
  "fetch_page_with_retry (test_helpers (Tag [] [] []))
        (test_driver (Inl (Exn WebDriverException ''invalid session id'')) (Inr ''complete''))
        ''https://example.com/'' fresh_world =
     (Inr (fetch_error ''https://example.com/'' (''Browser error: '' @ ''invalid session id'')),
      fresh_world\<lparr>calls := [GetDriver, Get ''https://example.com/'']\<rparr>) \<and>
   FetchUrlOutput.status
     (fetch_error ''https://example.com/'' (''Browser error: '' @ ''invalid session id''))
     = ''error'' \<and>
   get_driver_calls (fresh_world\<lparr>calls := [GetDriver, Get ''https://example.com/'']\<rparr>)
     = get_driver_calls fresh_world + 1"
  using retry_fatal_runs_one_attempt
     [of "test_helpers (Tag [] [] [])"
         "test_driver (Inl (Exn WebDriverException ''invalid session id'')) (Inr ''complete'')"
         "''https://example.com/''" fresh_world "Exn WebDriverException ''invalid session id''"
         "fresh_world\<lparr>calls := [GetDriver, Get ''https://example.com/'']\<rparr>"]
  by (simp add: fetch_page_body_def call_driver_def test_driver_def fresh_world_def string_simps)

text \<open>
  The claim as the specification words it fails: the navigation of this driver raises an
  exception that is no \<open>WebDriverException\<close> and whose text has no network or time-out
  keyword. No \<open>except\<close> clause catches it and the decorator retries every exception, so
  the retried fetch is three attempts with the two sleeps between them, and the exception
  is raised again.
\<close>

theorem retry_fatal_counterexample:
  "\<not> is_recoverable (lower ''boom'') \<and>
   fst (fetch_page_with_retry (test_helpers (Tag [] [] []))
          (test_driver (Inl (Exn OtherException ''boom'')) (Inr ''complete''))
          ''https://example.com/'' fresh_world) = Inl (Exn OtherException ''boom'') \<and>
   calls (snd (fetch_page_with_retry (test_helpers (Tag [] [] []))
          (test_driver (Inl (Exn OtherException ''boom'')) (Inr ''complete''))
          ''https://example.com/'' fresh_world)) =
     [GetDriver, Get ''https://example.com/'', Sleep 1000,
      GetDriver, Get ''https://example.com/'', Sleep 2000,
      GetDriver, Get ''https://example.com/'']"
proof -
  let ?h = "test_helpers (Tag [] [] [])"
  let ?drv = "test_driver (Inl (Exn OtherException ''boom'')) (Inr ''complete'')"
  let ?fn = "fetch_page_attempt ?h ?drv ''https://example.com/''"
  let ?wt = "wait_exponential 1 1 10"
  have k: "\<not> is_recoverable (lower ''boom'')"
    by (simp add: string_simps)
  have a: "?fn w = (Inl (Exn OtherException ''boom''),
                    w\<lparr>calls := calls w @ [GetDriver, Get ''https://example.com/'']\<rparr>)"
    for w :: "unit world"
    by (simp add: fetch_page_attempt_def fetch_page_body_def call_driver_def test_driver_def)
  have w1: "1000 * ?wt 1 = 1000" and w2: "1000 * ?wt (Suc 1) = 2000"
    by (simp_all add: wait_exponential_def)
  have "retry 3 ?wt ?fn 1 fresh_world =
        retry 3 ?wt ?fn (Suc 1)
          (sleep 1000 (fresh_world\<lparr>calls := calls fresh_world
                          @ [GetDriver, Get ''https://example.com/'']\<rparr>))"
    using retry_again [where fn = ?fn and wt = ?wt and k = 1 and n = 3, OF a] w1 by simp
  also have "\<dots> = retry 3 ?wt ?fn (Suc (Suc 1))
          (sleep 2000 ((sleep 1000 (fresh_world\<lparr>calls := calls fresh_world
                          @ [GetDriver, Get ''https://example.com/'']\<rparr>))
             \<lparr>calls := calls (sleep 1000 (fresh_world\<lparr>calls := calls fresh_world
                          @ [GetDriver, Get ''https://example.com/'']\<rparr>))
                        @ [GetDriver, Get ''https://example.com/'']\<rparr>))"
    using retry_again [where fn = ?fn and wt = ?wt and k = "Suc 1" and n = 3, OF a] w2 by simp
  also have "\<dots> = ?fn
          (sleep 2000 ((sleep 1000 (fresh_world\<lparr>calls := calls fresh_world
                          @ [GetDriver, Get ''https://example.com/'']\<rparr>))
             \<lparr>calls := calls (sleep 1000 (fresh_world\<lparr>calls := calls fresh_world
                          @ [GetDriver, Get ''https://example.com/'']\<rparr>))
                        @ [GetDriver, Get ''https://example.com/'']\<rparr>))"
    using retry_raises_last [where fn = ?fn and wt = ?wt and k = "Suc (Suc 1)" and n = 3, OF a]
    by (simp add: a)
  finally have "fetch_page_with_retry ?h ?drv ''https://example.com/'' fresh_world = ?fn
          (sleep 2000 ((sleep 1000 (fresh_world\<lparr>calls := calls fresh_world
                          @ [GetDriver, Get ''https://example.com/'']\<rparr>))
             \<lparr>calls := calls (sleep 1000 (fresh_world\<lparr>calls := calls fresh_world
                          @ [GetDriver, Get ''https://example.com/'']\<rparr>))
                        @ [GetDriver, Get ''https://example.com/'']\<rparr>))"
    by (simp add: fetch_page_with_retry_def)
  with k show ?thesis by (simp add: a fresh_world_def)
qed

text \<open>
  C7. A search whose query is empty once stripped, or whose engine identifier, in the
  lower case in which \<open>web_search\<close> dispatches on it, is none of the six known ones,
  returns status \<open>error\<close>, and the world is the one it started in: the driver state is
  untouched and no call has been added to the list of calls. (An identifier that differs
  from a known one in case only does not pass the pattern of the input schema.)
\<close>

theorem invalid_search_input_makes_no_driver_call:
  assumes "strip (WebSearchInput.query inp) = [] \<or>
           lower (WebSearchInput.engine inp) \<notin> set known_engines"
  shows "\<exists>out. web_search h drv gbm inp w = (Inr out, w) \<and>
           WebSearchOutput.status out = ''error''"
  using assms
  by (auto simp: web_search_def web_search_try_def search_error_def Let_def
                 dispatch_None_iff [symmetric]
           split: sum.splits)

theorem invalid_search_input_witness:
  "(\<exists>out. web_search (test_helpers page_of_two) (test_driver (Inr ()) (Inr ''complete''))
      (Inr True) (search_for ''python programming'' ''duckduckgo'' 5) fresh_world
        = (Inr out, fresh_world) \<and> WebSearchOutput.status out = ''error'') \<and>
   (\<exists>out. web_search (test_helpers page_of_two) (test_driver (Inr ()) (Inr ''complete''))
      (Inr True) (search_for [CHR 0xA0, CHR '' '', CHR 0x09] ''arxiv'' 5) fresh_world
        = (Inr out, fresh_world) \<and> WebSearchOutput.status out = ''error'')"
proof
  show "\<exists>out. web_search (test_helpers page_of_two) (test_driver (Inr ()) (Inr ''complete''))
      (Inr True) (search_for ''python programming'' ''duckduckgo'' 5) fresh_world
        = (Inr out, fresh_world) \<and> WebSearchOutput.status out = ''error''"
    by (rule invalid_search_input_makes_no_driver_call)
       (simp add: search_for_def known_engines_def lower_def lower_char_def)
  show "\<exists>out. web_search (test_helpers page_of_two) (test_driver (Inr ()) (Inr ''complete''))
      (Inr True) (search_for [CHR 0xA0, CHR '' '', CHR 0x09] ''arxiv'' 5) fresh_world
        = (Inr out, fresh_world) \<and> WebSearchOutput.status out = ''error''"
    by (rule invalid_search_input_makes_no_driver_call)
       (simp add: search_for_def strip_def is_space_def)
qed

text \<open>
  C8. Whatever the helpers, the browser manager and the driver do, \<open>fetch_url\<close> and
  \<open>web_search\<close> return an output, never an exception, and its status is \<open>ok\<close> or
  \<open>error\<close>.
\<close>

theorem tools_always_return_a_status:
  "(\<exists>out w'. fetch_url h drv gbm u w = (Inr out, w') \<and>
      FetchUrlOutput.status out \<in> {''ok'', ''error''}) \<and>
   (\<exists>out w'. web_search h drv gbm' inp w = (Inr out, w') \<and>
      WebSearchOutput.status out \<in> {''ok'', ''error''})"
  using fetch_url_status [of h drv gbm u w] web_search_status [of h drv gbm' inp w]
  by auto

text \<open>
  C9. When the extraction of one of the result elements that the parser goes through
  fails, the results are those of the elements before it followed by those of the
  elements after it: that element alone is skipped.
\<close>

theorem failed_element_is_skipped_alone:
  assumes "parse_html_with_soup h src = Inr soup"
    and "slice_to (result_elements eng soup) n = before @ el # after"
    and "extract_result h eng el = None"
  shows "parse_results h eng src n =
           extract_each (\<lambda>e. Inr (extract_result h eng e)) before @
           extract_each (\<lambda>e. Inr (extract_result h eng e)) after"
  using assms by (simp add: parse_results_eq extract_each_skip)

theorem failed_element_witness:
  "parse_results (test_helpers page_with_gap) ArXiv ''<html></html>'' 3 =
     [\<lparr>title = ''Quantum error correction'', url = ''https://arxiv.org/abs/2401.00001'',
       snippet = []\<rparr>,
      \<lparr>title = ''Surface codes'', url = ''https://arxiv.org/abs/2401.00002'', snippet = []\<rparr>]"
  using failed_element_is_skipped_alone
    [of "test_helpers page_with_gap" "''<html></html>''" page_with_gap ArXiv 3
        "[arxiv_entry ''Quantum error correction'' ''https://arxiv.org/abs/2401.00001'']"
        entry_without_link
        "[arxiv_entry ''Surface codes'' ''/abs/2401.00002'']"]
  by (simp add: slice_to_def page_simps)

text \<open>
  C10. An engine value that the input schema admits is one of the six names. Lower case
  leaves it as it is, the dispatch finds its search routine, and \<open>web_search\<close> never
  returns the error of an unsupported engine for it.
\<close>

theorem schema_valid_engine_is_dispatched:
  assumes "WebSearchInput.engine inp \<in> set known_engines"
  shows "lower (WebSearchInput.engine inp) = WebSearchInput.engine inp \<and>
         dispatch (lower (WebSearchInput.engine inp)) \<noteq> None \<and>
         (\<forall>out w'. web_search h drv gbm inp w = (Inr out, w') \<longrightarrow>
            WebSearchOutput.error out \<noteq>
              Some (''Unsupported search engine: '' @ lower (WebSearchInput.engine inp)))"
proof -
  have l: "lower (WebSearchInput.engine inp) = WebSearchInput.engine inp"
    using assms by (auto simp: known_engines_def lower_def lower_char_def)
  have d: "dispatch (WebSearchInput.engine inp) \<noteq> None"
    using assms by (simp add: dispatch_None_iff)
  have "WebSearchOutput.error out \<noteq>
              Some (''Unsupported search engine: '' @ lower (WebSearchInput.engine inp))"
    if "web_search h drv gbm inp w = (Inr out, w')" for out w'
    using that d l
    by (auto simp: web_search_def web_search_try_def search_error_def Let_def
             split: sum.splits if_splits option.splits prod.splits)
  with l d show ?thesis by simp
qed

theorem schema_valid_engine_witness:
  "''arxiv'' \<in> set known_engines \<and> lower ''arxiv'' = ''arxiv'' \<and>
   dispatch (lower ''arxiv'') \<noteq> None"
proof -
  have e: "WebSearchInput.engine (search_for ''quantum computing'' ''arxiv'' 5) = ''arxiv''"
    by (simp add: search_for_def)
  have m: "''arxiv'' \<in> set known_engines"
    by (simp add: known_engines_def)
  from schema_valid_engine_is_dispatched
    [where inp = "search_for ''quantum computing'' ''arxiv'' 5"
       and h = "test_helpers page_of_two" and drv = "test_driver (Inr ()) (Inr ''complete'')"
       and gbm = "Inr True" and w = fresh_world, unfolded e, OF m] m
  show ?thesis by blast
qed

end
